theory Spec2Isabelle
  imports Main
begin

section \<open>The geoip2 client: data model\<close>

text \<open>
  The package has one file, \<^verbatim>\<open>geoip2.go\<close>: a client value \<^verbatim>\<open>Api\<close>, three
  constructors (\<^verbatim>\<open>New\<close>, \<^verbatim>\<open>WithClient\<close>, \<^verbatim>\<open>WithClientFunc\<close>), the adapter
  \<^verbatim>\<open>wrap\<close>, and the lookup pipeline \<^verbatim>\<open>fetch\<close> with its three one-line callers.

  What \<^verbatim>\<open>geoip2.go\<close> uses but does not define is taken as a parameter, collected in the
  record \<open>env\<close> below: the URL parser behind \<^verbatim>\<open>http.NewRequest\<close>, \<^verbatim>\<open>http.DefaultClient\<close>,
  the JSON decoder at the two target types, the zero value of \<^verbatim>\<open>Response\<close>, and the
  \<^verbatim>\<open>Error()\<close> method of \<^verbatim>\<open>Error\<close>.
\<close>

subsection \<open>Errors\<close>

text \<open>
  Modelled from the spec: the declaration of the struct \<^verbatim>\<open>Error\<close> is not in
  \<^verbatim>\<open>geoip2.go\<close>. The file builds it as \<^verbatim>\<open>Error{HTTPStatus: resp.StatusCode}\<close>, assigns a
  string to \<^verbatim>\<open>v.Err\<close> and returns it as an \<^verbatim>\<open>error\<close>; the spec describes it as carrying
  the HTTP status code and a descriptive message. The record has these two fields.
\<close>

record Error =
  HTTPStatus :: int
  Err :: string

text \<open>
  A Go \<^verbatim>\<open>error\<close> value, as far as \<^verbatim>\<open>fetch\<close> can return one: an error made outside the
  package (by \<^verbatim>\<open>net/url\<close>, the transport, the body reader or \<^verbatim>\<open>encoding/json\<close>),
  identified by its message; an \<^verbatim>\<open>Error\<close> struct; or the result of \<^verbatim>\<open>fmt.Errorf\<close>,
  identified by the formatted text. The nil error is \<open>None\<close> of \<open>err option\<close>.
\<close>

datatype err = Foreign string | ServiceError Error | Errorf string

subsection \<open>Contexts, requests, responses\<close>

text \<open>
  A \<^verbatim>\<open>context.Context\<close> is an interface value: nil is \<open>None\<close>, \<^verbatim>\<open>context.Background()\<close>
  is \<open>Some Background\<close>, and every other context descends from a parent by
  \<^verbatim>\<open>WithCancel\<close>, \<^verbatim>\<open>WithDeadline\<close> or \<^verbatim>\<open>WithValue\<close> (the number tells siblings apart).
\<close>

datatype "context" = Background | Child "context" nat

text \<open>
  An \<^verbatim>\<open>http.Request\<close>: the method, the URL and the header as a map from field name to
  value. The URL is the \<^verbatim>\<open>*url.URL\<close> that \<^verbatim>\<open>net/url\<close> parsed, written as the string it
  serialises to, which is what goes on the wire.
\<close>

record Request =
  Method :: string
  URL :: string
  Header :: "string \<rightharpoonup> string"

text \<open>
  A response body is an \<^verbatim>\<open>io.ReadCloser\<close>: a stream that delivers \<open>content\<close> and then
  ends, either with EOF (\<open>readErr = None\<close>) or with a read error.
\<close>

record ReadCloser =
  content :: string
  readErr :: "err option"

record HttpResponse =
  StatusCode :: int
  Body :: ReadCloser

text \<open>
  The transport is effectful (it talks to the network), so it threads a world state \<open>'w\<close>.
  It returns Go's pair \<^verbatim>\<open>(*http.Response, error)\<close>, either of which may be nil.
\<close>

type_synonym 'w do_result = "(HttpResponse option \<times> err option) \<times> 'w"

type_synonym 'w transport = "context option \<Rightarrow> Request \<Rightarrow> 'w \<Rightarrow> 'w do_result"

text \<open>An \<^verbatim>\<open>http.Client\<close>, as far as the package uses it: its method \<^verbatim>\<open>Do\<close>.\<close>

record 'w Client =
  Do :: "Request \<Rightarrow> 'w \<Rightarrow> 'w do_result"

subsection \<open>The client and the store it lives in\<close>

text \<open>\<^verbatim>\<open>type Api struct\<close>; a nil \<^verbatim>\<open>doFunc\<close> is \<open>None\<close>.\<close>

record 'w Api =
  doFunc :: "'w transport option"
  userId :: string
  licenseKey :: string

text \<open>
  Clients are handled through pointers (\<^verbatim>\<open>*Api\<close>). The store is the list of the
  \<^verbatim>\<open>Api\<close> objects allocated so far, an address is an index into it, nil is \<open>None\<close>;
  \<^verbatim>\<open>&Api{...}\<close> appends a new object and yields its address.
\<close>

type_synonym 'w heap = "'w Api list"

type_synonym ptr = "nat option"

definition deref :: "'w heap \<Rightarrow> ptr \<Rightarrow> 'w Api option" where
  "deref h p = (case p of None \<Rightarrow> None
                | Some n \<Rightarrow> if n < length h then Some (h ! n) else None)"

definition alloc :: "'w heap \<Rightarrow> 'w Api \<Rightarrow> ptr \<times> 'w heap" where
  "alloc h v = (Some (length h), h @ [v])"

text \<open>A call either returns or panics (a nil dereference, a call of a nil function).\<close>

datatype 'a outcome = Panic | Return 'a

subsection \<open>What the file takes from elsewhere\<close>

record ('w, 'r) env =
  parseURL :: "string \<Rightarrow> err + string"
  DefaultClient :: "'w Client"
  jsonDecodeError :: "ReadCloser \<Rightarrow> Error \<Rightarrow> Error \<times> err option"
  jsonDecodeResponse :: "ReadCloser \<Rightarrow> 'r \<Rightarrow> 'r \<times> err option"
  emptyResponse :: 'r
  Error_Error :: "Error \<Rightarrow> string"

text \<open>
  \<^item> \<open>parseURL\<close>: \<^verbatim>\<open>url.Parse\<close> as \<^verbatim>\<open>http.NewRequest\<close> calls it. It yields the parser's
    error, which is the only way \<^verbatim>\<open>http.NewRequest("GET", u, nil)\<close> fails, or the parsed
    URL, written as the string it serialises to. The parser escapes what it has to, so
    that string need not be the one it was given.
  \<^item> \<open>jsonDecodeError\<close>, \<open>jsonDecodeResponse\<close>: \<^verbatim>\<open>json.NewDecoder(r).Decode(&v)\<close> at
    \<^verbatim>\<open>Error\<close> and at \<^verbatim>\<open>Response\<close>: given the stream and the target's value before the call,
    the target's value after it and the error. The decoder may write to the target and
    still fail.
  \<^item> \<open>emptyResponse\<close>: \<^verbatim>\<open>Response{}\<close>; the struct \<^verbatim>\<open>Response\<close> itself is the type
    parameter \<open>'r\<close>.
  \<^item> \<open>Error_Error\<close>: the method \<^verbatim>\<open>Error()\<close> of \<^verbatim>\<open>Error\<close>.
\<close>

section \<open>Library functions the pipeline calls\<close>

text \<open>The message of an error, which is what \<^verbatim>\<open>%v\<close> prints.\<close>

fun errorMessage :: "('w, 'r) env \<Rightarrow> err \<Rightarrow> string" where
  "errorMessage E (Foreign m) = m"
| "errorMessage E (ServiceError v) = Error_Error E v"
| "errorMessage E (Errorf m) = m"

text \<open>
  \<^verbatim>\<open>http.NewRequest(method, u, nil)\<close> for a valid method: it fails with the parser's
  error, or yields a request for the parsed URL with an empty header.
\<close>

definition NewRequest :: "('w, 'r) env \<Rightarrow> string \<Rightarrow> string \<Rightarrow> err + Request" where
  "NewRequest E m u =
     (case parseURL E u of
        Inl e \<Rightarrow> Inl e
      | Inr parsed \<Rightarrow> Inr \<lparr>Method = m, URL = parsed, Header = Map.empty\<rparr>)"

text \<open>
  Standard base64 with padding (RFC 4648), on bytes given as numbers below 256:
  \<^verbatim>\<open>base64.StdEncoding.EncodeToString\<close>.
\<close>

definition base64_alphabet :: string where
  "base64_alphabet =
     ''ABCDEFGHIJKLMNOPQRSTUVWXYZabcdefghijklmnopqrstuvwxyz0123456789+/''"

fun base64_bytes :: "nat list \<Rightarrow> string" where
  "base64_bytes [] = []"
| "base64_bytes [a] =
     [base64_alphabet ! (a div 4), base64_alphabet ! ((a mod 4) * 16), CHR ''='', CHR ''='']"
| "base64_bytes [a, b] =
     [base64_alphabet ! (a div 4), base64_alphabet ! ((a mod 4) * 16 + b div 16),
      base64_alphabet ! ((b mod 16) * 4), CHR ''='']"
| "base64_bytes (a # b # c # rest) =
     [base64_alphabet ! (a div 4), base64_alphabet ! ((a mod 4) * 16 + b div 16),
      base64_alphabet ! ((b mod 16) * 4 + c div 64), base64_alphabet ! (c mod 64)]
     @ base64_bytes rest"

definition base64 :: "string \<Rightarrow> string" where
  "base64 s = base64_bytes (map of_char s)"

text \<open>
  \<^verbatim>\<open>req.SetBasicAuth(username, password)\<close>: sets the field \<^verbatim>\<open>Authorization\<close> to
  \<^verbatim>\<open>"Basic "\<close> followed by the base64 of \<^verbatim>\<open>username:password\<close>.
\<close>

definition SetBasicAuth :: "Request \<Rightarrow> string \<Rightarrow> string \<Rightarrow> Request" where
  "SetBasicAuth req username password =
     req\<lparr>Header := (Header req)(''Authorization'' \<mapsto>
                      ''Basic '' @ base64 (username @ '':'' @ password))\<rparr>"

text \<open>
  \<^verbatim>\<open>ioutil.ReadAll\<close> returns what it read and the read error (nil at EOF);
  \<^verbatim>\<open>bytes.NewBuffer\<close> is a stream over a byte slice that cannot fail.
\<close>

definition ReadAll :: "ReadCloser \<Rightarrow> string \<times> err option" where
  "ReadAll r = (content r, readErr r)"

definition NewBuffer :: "string \<Rightarrow> ReadCloser" where
  "NewBuffer buf = \<lparr>content = buf, readErr = None\<rparr>"

section \<open>The package\<close>

subsection \<open>Construction\<close>

text \<open>
  \<^verbatim>\<open>func wrap(doFunc func(*http.Request) (*http.Response, error))
    func(context.Context, *http.Request) (*http.Response, error) {
      return func(ctx context.Context, req *http.Request) (*http.Response, error) {
        return doFunc(req) } }\<close>
\<close>

definition wrap :: "(Request \<Rightarrow> 'w \<Rightarrow> 'w do_result) \<Rightarrow> 'w transport" where
  "wrap doFunc' = (\<lambda>ctx req. doFunc' req)"

text \<open>
  \<^verbatim>\<open>func WithClientFunc(api *Api, ctxFunc ...) *Api {
      return &Api{doFunc: ctxFunc, userId: api.userId, licenseKey: api.licenseKey} }\<close>
  Reading \<^verbatim>\<open>api.userId\<close> panics when \<^verbatim>\<open>api\<close> is nil.
\<close>

definition WithClientFunc ::
  "'w heap \<Rightarrow> ptr \<Rightarrow> 'w transport option \<Rightarrow> (ptr \<times> 'w heap) outcome" where
  "WithClientFunc h api ctxFunc =
     (case deref h api of
        None \<Rightarrow> Panic
      | Some base \<Rightarrow>
          Return (alloc h \<lparr>doFunc = ctxFunc, userId = userId base,
                           licenseKey = licenseKey base\<rparr>))"

text \<open>
  \<^verbatim>\<open>func WithClient(api *Api, client *http.Client) *Api {
      return WithClientFunc(api, wrap(client.Do)) }\<close>
  The client is taken to be non-nil.
\<close>

definition WithClient ::
  "'w heap \<Rightarrow> ptr \<Rightarrow> 'w Client \<Rightarrow> (ptr \<times> 'w heap) outcome" where
  "WithClient h api client = WithClientFunc h api (Some (wrap (Do client)))"

text \<open>
  \<^verbatim>\<open>func New(userId, licenseKey string) *Api {
      api := &Api{userId: userId, licenseKey: licenseKey}
      return WithClient(api, http.DefaultClient) }\<close>
\<close>

definition New ::
  "('w, 'r) env \<Rightarrow> 'w heap \<Rightarrow> string \<Rightarrow> string \<Rightarrow> (ptr \<times> 'w heap) outcome" where
  "New E h userId' licenseKey' =
     (case alloc h \<lparr>doFunc = None, userId = userId', licenseKey = licenseKey'\<rparr> of
        (api, h1) \<Rightarrow> WithClient h1 api (DefaultClient E))"

subsection \<open>The pipeline\<close>

text \<open>
  \<^verbatim>\<open>func (a *Api) fetch(ctx context.Context, prefix, ipAddress string) (Response, error)\<close>,
  statement by statement. The result is the pair the function returns, or a panic, and
  the world after the transport ran. \<^verbatim>\<open>defer resp.Body.Close()\<close> releases the stream and
  does not change what is returned; it is not modelled.
\<close>

definition fetch ::
  "('w, 'r) env \<Rightarrow> 'w heap \<Rightarrow> ptr \<Rightarrow> context option \<Rightarrow> string \<Rightarrow> string \<Rightarrow> 'w
     \<Rightarrow> ('r \<times> err option) outcome \<times> 'w" where
  "fetch E h a ctx prefix ipAddress w =
     (case NewRequest E ''GET'' (prefix @ ipAddress) of
        Inl err \<Rightarrow> (Return (emptyResponse E, Some err), w)
      | Inr req0 \<Rightarrow>
     (case deref h a of
        None \<Rightarrow> (Panic, w)
      | Some api \<Rightarrow>
     (let req = SetBasicAuth req0 (userId api) (licenseKey api);
          ctx' = (if ctx = None then Some Background else ctx)
      in
     (case doFunc api of
        None \<Rightarrow> (Panic, w)
      | Some f \<Rightarrow>
     (case f ctx' req w of
        ((_, Some err), w') \<Rightarrow> (Return (emptyResponse E, Some err), w')
      | ((None, None), w') \<Rightarrow> (Panic, w')
      | ((Some resp, None), w') \<Rightarrow>
          if StatusCode resp \<ge> 400 \<and> StatusCode resp < 600 then
            (case ReadAll (Body resp) of
               (buf, Some err) \<Rightarrow> (Return (emptyResponse E, Some err), w')
             | (buf, None) \<Rightarrow>
                 (let respContent = buf;
                      br = NewBuffer buf;
                      v = \<lparr>HTTPStatus = StatusCode resp, Err = []\<rparr>
                  in
                  (case jsonDecodeError E br v of
                     (v1, Some err) \<Rightarrow>
                       (Return (emptyResponse E,
                          Some (ServiceError
                            (v1\<lparr>Err := ''Error parsing error response as JSON: ''
                                          @ respContent\<rparr>))), w')
                   | (v1, None) \<Rightarrow>
                       (Return (emptyResponse E, Some (ServiceError v1)), w'))))
          else
            (case jsonDecodeResponse E (Body resp) (emptyResponse E) of
               (response, Some err) \<Rightarrow>
                 (Return (response,
                    Some (Errorf (''Error parsing response as JSON: ''
                                   @ errorMessage E err))), w')
             | (response, None) \<Rightarrow> (Return (response, None), w')))))))"

text \<open>
  \<^verbatim>\<open>func (a *Api) Country(ctx, ipAddress) (Response, error) {
      return a.fetch(ctx, "https://geoip.maxmind.com/geoip/v2.1/country/", ipAddress) }\<close>
  and likewise \<^verbatim>\<open>City\<close> and \<^verbatim>\<open>Insights\<close>.
\<close>

definition Country ::
  "('w, 'r) env \<Rightarrow> 'w heap \<Rightarrow> ptr \<Rightarrow> context option \<Rightarrow> string \<Rightarrow> 'w
     \<Rightarrow> ('r \<times> err option) outcome \<times> 'w" where
  "Country E h a ctx ipAddress =
     fetch E h a ctx ''https://geoip.maxmind.com/geoip/v2.1/country/'' ipAddress"

definition City ::
  "('w, 'r) env \<Rightarrow> 'w heap \<Rightarrow> ptr \<Rightarrow> context option \<Rightarrow> string \<Rightarrow> 'w
     \<Rightarrow> ('r \<times> err option) outcome \<times> 'w" where
  "City E h a ctx ipAddress =
     fetch E h a ctx ''https://geoip.maxmind.com/geoip/v2.1/city/'' ipAddress"

definition Insights ::
  "('w, 'r) env \<Rightarrow> 'w heap \<Rightarrow> ptr \<Rightarrow> context option \<Rightarrow> string \<Rightarrow> 'w
     \<Rightarrow> ('r \<times> err option) outcome \<times> 'w" where
  "Insights E h a ctx ipAddress =
     fetch E h a ctx ''https://geoip.maxmind.com/geoip/v2.1/insights/'' ipAddress"

section \<open>Test doubles\<close>

text \<open>
  The transports the tests of the spec speak of: a stub that answers every request with a
  given status and body, one that fails with a given error, and a spy that forwards to
  another transport and appends the arguments of every call to a log kept in the world.
\<close>

definition stub :: "int \<Rightarrow> string \<Rightarrow> 'w transport" where
  "stub status body =
     (\<lambda>ctx req w. ((Some \<lparr>StatusCode = status, Body = NewBuffer body\<rparr>, None), w))"

definition failing :: "err \<Rightarrow> 'w transport" where
  "failing e = (\<lambda>ctx req w. ((None, Some e), w))"

type_synonym call_log = "(context option \<times> Request) list"

definition spy :: "'w transport \<Rightarrow> ('w \<times> call_log) transport" where
  "spy f = (\<lambda>ctx req (w, calls).
              case f ctx req w of (res, w') \<Rightarrow> (res, (w', calls @ [(ctx, req)])))"

text \<open>
  A sample environment for the examples: stand-ins for \<^verbatim>\<open>net/url\<close> and
  \<^verbatim>\<open>encoding/json\<close> that compute their answers on the strings the examples use. The
  messages of their errors are placeholders.

  The sample URL parser rejects a string with a control character and writes a blank of
  the path as \<^verbatim>\<open>%20\<close>; it leaves every other string as it is.
\<close>

definition sampleParseURL :: "string \<Rightarrow> err + string" where
  "sampleParseURL u =
     (if list_ex (\<lambda>c. (of_char c :: nat) < 32 \<or> (of_char c :: nat) = 127) u
      then Inl (Foreign ''net/url: invalid control character in URL'')
      else Inr (concat (map (\<lambda>c. if c = CHR '' '' then ''%20'' else [c]) u)))"

text \<open>
  The sample decoder for \<^verbatim>\<open>Error\<close> reads a fragment of JSON: \<^verbatim>\<open>null\<close>, and objects
  whose values are strings without escapes, unsigned integers or \<^verbatim>\<open>null\<close>. Like
  \<^verbatim>\<open>Decode\<close> it reads one value from the front of the stream and leaves the rest. First
  the text is cut into tokens.
\<close>

datatype jvalue = JString string | JNumber int | JNull

datatype token = TLBrace | TRBrace | TColon | TComma | TValue jvalue | TBad

datatype scan_mode = Between | InString string | InNumber string | InNull string

definition is_space :: "char \<Rightarrow> bool" where
  "is_space c \<longleftrightarrow> c = CHR '' '' \<or> c = CHR 0x09 \<or> c = CHR 0x0A \<or> c = CHR 0x0D"

definition is_digit :: "char \<Rightarrow> bool" where
  "is_digit c \<longleftrightarrow> (48::nat) \<le> of_char c \<and> (of_char c :: nat) \<le> 57"

definition digits_value :: "string \<Rightarrow> int" where
  "digits_value ds = foldl (\<lambda>n c. 10 * n + (int (of_char c) - 48)) 0 ds"

definition punct :: "char \<Rightarrow> token option" where
  "punct c =
     (if c = CHR ''{'' then Some TLBrace
      else if c = CHR ''}'' then Some TRBrace
      else if c = CHR '':'' then Some TColon
      else if c = CHR '','' then Some TComma
      else None)"

fun scan :: "scan_mode \<Rightarrow> string \<Rightarrow> token list" where
  "scan Between [] = []"
| "scan Between (c # cs) =
     (if is_space c then scan Between cs
      else if c = CHR 0x22 then scan (InString []) cs
      else if is_digit c then scan (InNumber [c]) cs
      else if c = CHR ''n'' then scan (InNull ''ull'') cs
      else (case punct c of Some t \<Rightarrow> t # scan Between cs | None \<Rightarrow> [TBad]))"
| "scan (InString acc) [] = [TBad]"
| "scan (InString acc) (c # cs) =
     (if c = CHR 0x22 then TValue (JString (rev acc)) # scan Between cs
      else if c = CHR 0x5C \<or> (of_char c :: nat) < 32 then [TBad]
      else scan (InString (c # acc)) cs)"
| "scan (InNumber acc) [] = [TValue (JNumber (digits_value (rev acc)))]"
| "scan (InNumber acc) (c # cs) =
     (if is_digit c then scan (InNumber (c # acc)) cs
      else if is_space c then TValue (JNumber (digits_value (rev acc))) # scan Between cs
      else (case punct c of
              Some t \<Rightarrow> TValue (JNumber (digits_value (rev acc))) # t # scan Between cs
            | None \<Rightarrow> [TBad]))"
| "scan (InNull es) [] = [TBad]"
| "scan (InNull []) (c # cs) = [TBad]"
| "scan (InNull (e # es)) (c # cs) =
     (if c \<noteq> e then [TBad]
      else if es = [] then TValue JNull # scan Between cs
      else scan (InNull es) cs)"

text \<open>Then the first value is read off the tokens.\<close>

datatype document = Object "(string \<times> jvalue) list" | Scalar jvalue | Malformed

fun members :: "token list \<Rightarrow> (string \<times> jvalue) list option" where
  "members (TValue (JString k) # TColon # TValue v # TRBrace # ts) = Some [(k, v)]"
| "members (TValue (JString k) # TColon # TValue v # TComma # ts) =
     map_option ((#) (k, v)) (members ts)"
| "members ts = None"

fun document_of :: "token list \<Rightarrow> document" where
  "document_of (TLBrace # TRBrace # ts) = Object []"
| "document_of (TLBrace # ts) =
     (case members ts of Some ms \<Rightarrow> Object ms | None \<Rightarrow> Malformed)"
| "document_of (TValue v # ts) = Scalar v"
| "document_of ts = Malformed"

text \<open>
  Which key of the document goes to which field is decided by the tags of the
  declaration of \<^verbatim>\<open>Error\<close>, which \<^verbatim>\<open>geoip2.go\<close> does not show: \<open>statusKey\<close> is the key
  bound to \<^verbatim>\<open>HTTPStatus\<close> and \<open>messageKey\<close> the key bound to \<^verbatim>\<open>Err\<close>, \<open>None\<close> standing
  for a field the decoder does not see (\<^verbatim>\<open>json:"-"\<close>). Keys are compared without regard
  to case. A value of the wrong type is skipped and the first such mismatch is the error
  returned; the members after it are still stored.
\<close>

record ErrorTags =
  statusKey :: "string option"
  messageKey :: "string option"

definition lower :: "char \<Rightarrow> char" where
  "lower c = (if (65::nat) \<le> of_char c \<and> (of_char c :: nat) \<le> 90
              then char_of (of_char c + (32::nat)) else c)"

definition bound_to :: "string option \<Rightarrow> string \<Rightarrow> bool" where
  "bound_to tag k = (case tag of None \<Rightarrow> False | Some t \<Rightarrow> map lower t = map lower k)"

definition first_error :: "err option \<Rightarrow> err \<Rightarrow> err option" where
  "first_error e new = (case e of None \<Rightarrow> Some new | Some old \<Rightarrow> Some old)"

fun store_member :: "ErrorTags \<Rightarrow> Error \<times> err option \<Rightarrow> string \<times> jvalue \<Rightarrow> Error \<times> err option" where
  "store_member tags (v, e) (k, JNull) = (v, e)"
| "store_member tags (v, e) (k, JNumber n) =
     (if bound_to (statusKey tags) k then (v\<lparr>HTTPStatus := n\<rparr>, e)
      else if bound_to (messageKey tags) k
        then (v, first_error e (Foreign ''json: cannot unmarshal number into Go value of type string''))
      else (v, e))"
| "store_member tags (v, e) (k, JString x) =
     (if bound_to (statusKey tags) k
        then (v, first_error e (Foreign ''json: cannot unmarshal string into Go value of type int''))
      else if bound_to (messageKey tags) k then (v\<lparr>Err := x\<rparr>, e)
      else (v, e))"

definition sampleDecodeError :: "ErrorTags \<Rightarrow> ReadCloser \<Rightarrow> Error \<Rightarrow> Error \<times> err option" where
  "sampleDecodeError tags r v =
     (case document_of (scan Between (content r)) of
        Object ms \<Rightarrow> foldl (store_member tags) (v, None) ms
      | Scalar JNull \<Rightarrow> (v, None)
      | Scalar x \<Rightarrow>
          (v, Some (Foreign ''json: cannot unmarshal value into Go value of type geoip2.Error''))
      | Malformed \<Rightarrow>
          (v, Some (Foreign ''invalid character looking for beginning of value'')))"

text \<open>
  The sample \<^verbatim>\<open>Response\<close> is the list of the decoded (field, value) pairs,
  \<^verbatim>\<open>Response{}\<close> the empty list. Its decoder stands for \<^verbatim>\<open>encoding/json\<close> on the bodies
  the examples use: \<^verbatim>\<open>{}\<close> is a valid document that sets no field; a document with a
  value of the wrong type sets the fields before it and reports the mismatch; a text that
  is no JSON leaves the target alone and fails.
\<close>

type_synonym SampleResponse = "(string \<times> string) list"

definition sampleDecodeResponse ::
  "ReadCloser \<Rightarrow> SampleResponse \<Rightarrow> SampleResponse \<times> err option" where
  \<open>sampleDecodeResponse r v =
     (if content r = ''{}'' then (v, None)
      else if content r = ''{"country":{"iso_code":"US"}}''
        then ([(''country.iso_code'', ''US'')], None)
      else if content r = ''{"country":{"iso_code":"US"},"city":5}''
        then ([(''country.iso_code'', ''US'')],
              Some (Foreign ''json: cannot unmarshal number into Go value of type geoip2.City''))
      else (v, Some (Foreign ''invalid character looking for beginning of value'')))\<close>

text \<open>
  The environment \<open>taggedEnv tags\<close> decodes \<^verbatim>\<open>Error\<close> under the given tags. In
  \<open>sampleEnv\<close> the decoder does not see \<^verbatim>\<open>HTTPStatus\<close> and binds the key \<^verbatim>\<open>message\<close> to
  \<^verbatim>\<open>Err\<close>, which is the declaration the spec's example presumes.
\<close>

definition taggedEnv :: "ErrorTags \<Rightarrow> ('w, SampleResponse) env" where
  "taggedEnv tags =
     \<lparr>parseURL = sampleParseURL,
      DefaultClient = \<lparr>Do = (\<lambda>req w. ((None, Some (Foreign ''dial tcp: no such host'')), w))\<rparr>,
      jsonDecodeError = sampleDecodeError tags,
      jsonDecodeResponse = sampleDecodeResponse,
      emptyResponse = [],
      Error_Error = Err\<rparr>"

definition sampleEnv :: "('w, SampleResponse) env" where
  "sampleEnv = taggedEnv \<lparr>statusKey = None, messageKey = Some ''message''\<rparr>"

text \<open>A store holding one client, at address 0, with the given transport.\<close>

definition sampleClient :: "'w transport \<Rightarrow> 'w heap" where
  "sampleClient f = [\<lparr>doFunc = Some f, userId = ''42'', licenseKey = ''secret''\<rparr>]"

definition cityPrefix :: string where
  "cityPrefix = ''https://geoip.maxmind.com/geoip/v2.1/city/''"

section \<open>Auxiliary facts\<close>

lemmas sample_defs = sampleEnv_def taggedEnv_def sampleClient_def stub_def failing_def
  cityPrefix_def sampleParseURL_def sampleDecodeError_def sampleDecodeResponse_def
  is_space_def is_digit_def digits_value_def punct_def bound_to_def lower_def first_error_def

lemmas lib_defs = NewRequest_def deref_def ReadAll_def NewBuffer_def

lemma base64_example:
  "base64 ''Aladdin:open sesame'' = ''QWxhZGRpbjpvcGVuIHNlc2FtZQ==''"
  by (simp add: base64_def base64_alphabet_def)

text \<open>When the URL does not parse, \<^verbatim>\<open>fetch\<close> returns before it touches the client.\<close>

lemma fetch_unsent:
  assumes "parseURL E (prefix @ ipAddress) = Inl e"
  shows "fetch E h a ctx prefix ipAddress w = (Return (emptyResponse E, Some e), w)"
  using assms by (simp add: fetch_def NewRequest_def)

text \<open>
  Otherwise, on a client with a transport, the world after \<^verbatim>\<open>fetch\<close> is the world after
  one call of the transport: everything after that call is pure.
\<close>

lemma fetch_world:
  assumes "parseURL E (prefix @ ipAddress) = Inr u"
    and "deref h a = Some api"
    and "doFunc api = Some f"
  shows "snd (fetch E h a ctx prefix ipAddress w)
         = snd (f (if ctx = None then Some Background else ctx)
                  (SetBasicAuth \<lparr>Method = ''GET'', URL = u, Header = Map.empty\<rparr>
                     (userId api) (licenseKey api)) w)"
proof -
  let ?call = "f (if ctx = None then Some Background else ctx)
                 (SetBasicAuth \<lparr>Method = ''GET'', URL = u, Header = Map.empty\<rparr>
                    (userId api) (licenseKey api)) w"
  obtain r e w' where call: "?call = ((r, e), w')"
    by (metis surj_pair)
  show ?thesis
  proof (cases e)
    case (Some err)
    with assms call show ?thesis
      by (simp add: fetch_def NewRequest_def split: option.splits)
  next
    case None
    show ?thesis
    proof (cases r)
      case None
      with assms call \<open>e = None\<close> show ?thesis
        by (simp add: fetch_def NewRequest_def)
    next
      case (Some resp)
      with assms call \<open>e = None\<close> show ?thesis
        by (simp add: fetch_def NewRequest_def split: prod.splits option.splits)
    qed
  qed
qed

lemma snd_spy:
  "snd (spy f ctx req (w, calls)) = (snd (f ctx req w), calls @ [(ctx, req)])"
  by (simp add: spy_def split: prod.splits)

text \<open>Allocation keeps every object of the store; \<^verbatim>\<open>fetch\<close> only reads its receiver.\<close>

lemma deref_alloc:
  "deref h q = Some v \<Longrightarrow> deref (snd (alloc h x)) q = Some v"
  by (auto simp add: deref_def alloc_def nth_append split: option.splits if_splits)

lemma fetch_deref_cong:
  "deref h' a = deref h a \<Longrightarrow>
   fetch E h' a ctx prefix ipAddress w = fetch E h a ctx prefix ipAddress w"
  by (simp add: fetch_def split: sum.splits)

section \<open>The outcome of a lookup\<close>

text \<open>
  C1, as the code has it. Every call of \<^verbatim>\<open>fetch\<close> that returns (and so every call of
  \<^verbatim>\<open>Country\<close>, \<^verbatim>\<open>City\<close> and \<^verbatim>\<open>Insights\<close>, which are \<^verbatim>\<open>fetch\<close> at a fixed prefix) ends in one
  of two ways. Either the Response is empty and the error is not nil: the request could
  not be built and the error is the parser's, or the transport failed and the error is
  the transport's, or the transport answered with a status in [400, 600). Or the
  transport answered with a status outside [400, 600): then the Response is the value the
  JSON decoder left in the target, and the error is nil exactly when the decoder reported
  none.
\<close>

theorem fetch_result_cases:
  assumes "fetch E h a ctx prefix ipAddress w = (Return (response, e), w')"
  shows "((response = emptyResponse E \<and> e \<noteq> None
           \<and> ((\<exists>err. parseURL E (prefix @ ipAddress) = Inl err \<and> e = Some err)
              \<or> (\<exists>u api f r.
                   parseURL E (prefix @ ipAddress) = Inr u
                 \<and> deref h a = Some api \<and> doFunc api = Some f
                 \<and> f (if ctx = None then Some Background else ctx)
                      (SetBasicAuth \<lparr>Method = ''GET'', URL = u, Header = Map.empty\<rparr>
                         (userId api) (licenseKey api)) w
                    = ((r, e), w'))
              \<or> (\<exists>u api f resp.
                   parseURL E (prefix @ ipAddress) = Inr u
                 \<and> deref h a = Some api \<and> doFunc api = Some f
                 \<and> f (if ctx = None then Some Background else ctx)
                      (SetBasicAuth \<lparr>Method = ''GET'', URL = u, Header = Map.empty\<rparr>
                         (userId api) (licenseKey api)) w
                    = ((Some resp, None), w')
                 \<and> 400 \<le> StatusCode resp \<and> StatusCode resp < 600)))
        \<or> (\<exists>u api f resp.
             parseURL E (prefix @ ipAddress) = Inr u
           \<and> deref h a = Some api \<and> doFunc api = Some f
           \<and> f (if ctx = None then Some Background else ctx)
                (SetBasicAuth \<lparr>Method = ''GET'', URL = u, Header = Map.empty\<rparr>
                   (userId api) (licenseKey api)) w
              = ((Some resp, None), w')
           \<and> (StatusCode resp < 400 \<or> 600 \<le> StatusCode resp)
           \<and> response = fst (jsonDecodeResponse E (Body resp) (emptyResponse E))
           \<and> (e = None \<longleftrightarrow> snd (jsonDecodeResponse E (Body resp) (emptyResponse E)) = None)))
       \<and> Country E h a ctx ipAddress w
           = fetch E h a ctx ''https://geoip.maxmind.com/geoip/v2.1/country/'' ipAddress w
       \<and> City E h a ctx ipAddress w
           = fetch E h a ctx ''https://geoip.maxmind.com/geoip/v2.1/city/'' ipAddress w
       \<and> Insights E h a ctx ipAddress w
           = fetch E h a ctx ''https://geoip.maxmind.com/geoip/v2.1/insights/'' ipAddress w"
proof -
  let ?sent = "\<lambda>u api. SetBasicAuth \<lparr>Method = ''GET'', URL = u, Header = Map.empty\<rparr>
                          (userId api) (licenseKey api)"
  let ?ctx = "if ctx = None then Some Background else ctx"
  let ?shape =
    "(response = emptyResponse E \<and> e \<noteq> None
       \<and> ((\<exists>err. parseURL E (prefix @ ipAddress) = Inl err \<and> e = Some err)
          \<or> (\<exists>u api f r.
               parseURL E (prefix @ ipAddress) = Inr u
             \<and> deref h a = Some api \<and> doFunc api = Some f
             \<and> f ?ctx (?sent u api) w = ((r, e), w'))
          \<or> (\<exists>u api f resp.
               parseURL E (prefix @ ipAddress) = Inr u
             \<and> deref h a = Some api \<and> doFunc api = Some f
             \<and> f ?ctx (?sent u api) w = ((Some resp, None), w')
             \<and> 400 \<le> StatusCode resp \<and> StatusCode resp < 600)))
     \<or> (\<exists>u api f resp.
          parseURL E (prefix @ ipAddress) = Inr u
        \<and> deref h a = Some api \<and> doFunc api = Some f
        \<and> f ?ctx (?sent u api) w = ((Some resp, None), w')
        \<and> (StatusCode resp < 400 \<or> 600 \<le> StatusCode resp)
        \<and> response = fst (jsonDecodeResponse E (Body resp) (emptyResponse E))
        \<and> (e = None \<longleftrightarrow> snd (jsonDecodeResponse E (Body resp) (emptyResponse E)) = None))"
  have ?shape
  proof (cases "parseURL E (prefix @ ipAddress)")
    case (Inl err)
    with assms show ?thesis
      by (auto simp add: fetch_def NewRequest_def)
  next
    case (Inr u)
    from assms Inr obtain api where api: "deref h a = Some api"
      by (cases "deref h a") (simp_all add: fetch_def NewRequest_def)
    from assms Inr api obtain f where f: "doFunc api = Some f"
      by (cases "doFunc api") (simp_all add: fetch_def NewRequest_def)
    obtain r e1 w1 where call: "f ?ctx (?sent u api) w = ((r, e1), w1)"
      by (metis surj_pair)
    show ?thesis
    proof (cases e1)
      case (Some err)
      with assms Inr api f call
      have "response = emptyResponse E" "e = Some err" "w' = w1"
        by (simp_all add: fetch_def NewRequest_def split: option.splits)
      with Inr api f call Some show ?thesis
        by auto
    next
      case None
      with assms Inr api f call obtain resp where resp: "r = Some resp"
        by (cases r) (simp_all add: fetch_def NewRequest_def)
      from assms Inr api f call None resp have w: "w' = w1"
        by (simp add: fetch_def NewRequest_def Let_def split: if_splits prod.splits option.splits)
      show ?thesis
      proof (cases "400 \<le> StatusCode resp \<and> StatusCode resp < 600")
        case True
        with assms Inr api f call None resp
        have "response = emptyResponse E \<and> e \<noteq> None"
          by (auto simp add: fetch_def NewRequest_def Let_def split: prod.splits option.splits)
        with Inr api f call None resp w True show ?thesis
          by auto
      next
        case False
        with assms Inr api f call None resp
        have "response = fst (jsonDecodeResponse E (Body resp) (emptyResponse E))
            \<and> (e = None \<longleftrightarrow> snd (jsonDecodeResponse E (Body resp) (emptyResponse E)) = None)"
          by (auto simp add: fetch_def NewRequest_def split: prod.splits option.splits)
        with Inr api f call None resp w False show ?thesis
          by auto
      qed
    qed
  qed
  then show ?thesis
    by (simp add: Country_def City_def Insights_def)
qed

text \<open>
  An instance: the stub answers 404 with the body \<^verbatim>\<open>{}\<close>; the lookup returns, with an
  empty Response and a service error, which is the first of the two cases.
\<close>

theorem fetch_result_cases_witness:
  "fetch sampleEnv (sampleClient (stub 404 ''{}'')) (Some 0) None cityPrefix ''1.2.3.4'' ()
     = (Return ([], Some (ServiceError \<lparr>HTTPStatus = 404, Err = []\<rparr>)), ())
   \<and> ([] = emptyResponse (sampleEnv :: (unit, SampleResponse) env)
        \<and> Some (ServiceError \<lparr>HTTPStatus = 404, Err = []\<rparr>) \<noteq> None)"
proof -
  have run: "fetch sampleEnv (sampleClient (stub 404 ''{}'')) (Some 0) None cityPrefix
               ''1.2.3.4'' ()
             = (Return ([], Some (ServiceError \<lparr>HTTPStatus = 404, Err = []\<rparr>)), ())"
    by (simp add: fetch_def sample_defs lib_defs)
  from fetch_result_cases [OF run] run show ?thesis
    by (simp add: sampleEnv_def taggedEnv_def)
qed

text \<open>
  C1 as stated fails in both directions. A body \<^verbatim>\<open>{}\<close> under status 200 is a valid
  document that sets no field: the lookup returns the empty Response and a nil error.
  A body with a value of the wrong type makes the decoder fill the fields before it and
  report the mismatch: the lookup returns a filled Response and an error.
\<close>

theorem fetch_exactly_one_counterexample:
  \<open>fetch sampleEnv (sampleClient (stub 200 ''{}'')) (Some 0) None cityPrefix ''1.2.3.4'' ()
     = (Return (emptyResponse sampleEnv, None), ())
   \<and> fetch sampleEnv (sampleClient (stub 200 ''{"country":{"iso_code":"US"},"city":5}''))
        (Some 0) None cityPrefix ''1.2.3.4'' ()
     = (Return ([(''country.iso_code'', ''US'')],
          Some (Errorf ''Error parsing response as JSON: json: cannot unmarshal number into Go value of type geoip2.City'')),
        ())
   \<and> [(''country.iso_code'', ''US'')] \<noteq> emptyResponse (sampleEnv :: (unit, SampleResponse) env)\<close>
  by (simp add: fetch_def sample_defs lib_defs)

section \<open>Failures of the transport\<close>

text \<open>
  C5. When the transport itself returns an error, \<^verbatim>\<open>fetch\<close> returns that very error value,
  neither wrapped nor retried (the world is the one the single call left), together with
  the empty Response.
\<close>

theorem fetch_transport_failure:
  assumes "parseURL E (prefix @ ipAddress) = Inr u"
    and "deref h a = Some api"
    and "doFunc api = Some f"
    and "f (if ctx = None then Some Background else ctx)
           (SetBasicAuth \<lparr>Method = ''GET'', URL = u, Header = Map.empty\<rparr>
              (userId api) (licenseKey api)) w
         = ((resp, Some e), w')"
  shows "fetch E h a ctx prefix ipAddress w = (Return (emptyResponse E, Some e), w')"
  using assms by (simp add: fetch_def NewRequest_def split: option.splits)

theorem fetch_transport_failure_witness:
  "fetch sampleEnv (sampleClient (failing (Foreign ''dial tcp: connection refused'')))
         (Some 0) None cityPrefix ''1.2.3.4'' ()
   = (Return ([], Some (Foreign ''dial tcp: connection refused'')), ())"
  using fetch_transport_failure
    [where E = "sampleEnv :: (unit, SampleResponse) env" and prefix = cityPrefix
      and ipAddress = "''1.2.3.4''"
      and u = "''https://geoip.maxmind.com/geoip/v2.1/city/1.2.3.4''"
      and h = "sampleClient (failing (Foreign ''dial tcp: connection refused''))"
      and a = "Some 0" and ctx = None and w = "()" and w' = "()" and resp = None
      and e = "Foreign ''dial tcp: connection refused''"
      and f = "failing (Foreign ''dial tcp: connection refused'')"
      and api = "\<lparr>doFunc = Some (failing (Foreign ''dial tcp: connection refused'')),
                   userId = ''42'', licenseKey = ''secret''\<rparr>"]
  by (simp add: sample_defs lib_defs)

section \<open>Error responses of the service\<close>




text \<open>
  C2, with the text the code writes. When the status is in [400, 600) and the decoder
  reports an error without having touched the status field, \<^verbatim>\<open>fetch\<close> returns the empty
  Response and an \<^verbatim>\<open>Error\<close> whose status is the HTTP status and whose message is
  \<^verbatim>\<open>Error parsing error response as JSON: \<close> followed by the raw body.
\<close>

theorem fetch_unparsed_error_body:
  assumes "parseURL E (prefix @ ipAddress) = Inr u"
    and "deref h a = Some api"
    and "doFunc api = Some f"
    and "f (if ctx = None then Some Background else ctx)
           (SetBasicAuth \<lparr>Method = ''GET'', URL = u, Header = Map.empty\<rparr>
              (userId api) (licenseKey api)) w
         = ((Some resp, None), w')"
    and "400 \<le> StatusCode resp" and "StatusCode resp < 600"
    and "ReadAll (Body resp) = (buf, None)"
    and "jsonDecodeError E (NewBuffer buf) \<lparr>HTTPStatus = StatusCode resp, Err = []\<rparr>
         = (v, Some derr)"
    and "HTTPStatus v = StatusCode resp"
  shows "fetch E h a ctx prefix ipAddress w
         = (Return (emptyResponse E,
              Some (ServiceError \<lparr>HTTPStatus = StatusCode resp,
                      Err = ''Error parsing error response as JSON: '' @ buf\<rparr>)), w')"
  using assms by (simp add: fetch_def NewRequest_def)

theorem fetch_unparsed_error_body_witness:
  "fetch sampleEnv (sampleClient (stub 502 ''<html>bad gateway</html>''))
         (Some 0) None cityPrefix ''1.2.3.4'' ()
   = (Return ([], Some (ServiceError \<lparr>HTTPStatus = 502,
        Err = ''Error parsing error response as JSON: <html>bad gateway</html>''\<rparr>)), ())"
  using fetch_unparsed_error_body
    [where E = "sampleEnv :: (unit, SampleResponse) env" and prefix = cityPrefix
      and ipAddress = "''1.2.3.4''"
      and u = "''https://geoip.maxmind.com/geoip/v2.1/city/1.2.3.4''"
      and h = "sampleClient (stub 502 ''<html>bad gateway</html>'')"
      and a = "Some 0" and ctx = None and w = "()" and w' = "()"
      and f = "stub 502 ''<html>bad gateway</html>''"
      and api = "\<lparr>doFunc = Some (stub 502 ''<html>bad gateway</html>''),
                   userId = ''42'', licenseKey = ''secret''\<rparr>"
      and resp = "\<lparr>StatusCode = 502, Body = NewBuffer ''<html>bad gateway</html>''\<rparr>"
      and buf = "''<html>bad gateway</html>''"
      and v = "\<lparr>HTTPStatus = 502, Err = []\<rparr>"
      and derr = "Foreign ''invalid character looking for beginning of value''"]
  by (simp add: sample_defs lib_defs)

text \<open>
  C2 as stated names another text. For status 500 and the body \<^verbatim>\<open>internal failure\<close> the
  message \<^verbatim>\<open>fetch\<close> returns is not \<^verbatim>\<open>failed to parse error body as JSON\<close> followed by the
  body.
\<close>

theorem fetch_unparsed_error_body_counterexample:
  "fetch sampleEnv (sampleClient (stub 500 ''internal failure''))
         (Some 0) None cityPrefix ''1.2.3.4'' ()
   = (Return ([], Some (ServiceError \<lparr>HTTPStatus = 500,
        Err = ''Error parsing error response as JSON: internal failure''\<rparr>)), ())
   \<and> ''Error parsing error response as JSON: internal failure''
       \<noteq> ''failed to parse error body as JSON'' @ ''internal failure''"
  by (simp add: fetch_def sample_defs lib_defs)

section \<open>Answers outside the error range\<close>

text \<open>
  C7. When the transport answers 200 (or any status outside [400, 600)) and the body
  decodes without error, \<^verbatim>\<open>fetch\<close> returns the decoded Response and a nil error, and so
  do \<^verbatim>\<open>Country\<close>, \<^verbatim>\<open>City\<close> and \<^verbatim>\<open>Insights\<close> at their prefixes.
\<close>

theorem fetch_success:
  assumes "parseURL E (prefix @ ipAddress) = Inr u"
    and "deref h a = Some api"
    and "doFunc api = Some f"
    and "f (if ctx = None then Some Background else ctx)
           (SetBasicAuth \<lparr>Method = ''GET'', URL = u, Header = Map.empty\<rparr>
              (userId api) (licenseKey api)) w
         = ((Some resp, None), w')"
    and "StatusCode resp < 400 \<or> 600 \<le> StatusCode resp"
    and "jsonDecodeResponse E (Body resp) (emptyResponse E) = (response, None)"
  shows "fetch E h a ctx prefix ipAddress w = (Return (response, None), w')
       \<and> (prefix = ''https://geoip.maxmind.com/geoip/v2.1/country/'' \<longrightarrow>
            Country E h a ctx ipAddress w = (Return (response, None), w'))
       \<and> (prefix = ''https://geoip.maxmind.com/geoip/v2.1/city/'' \<longrightarrow>
            City E h a ctx ipAddress w = (Return (response, None), w'))
       \<and> (prefix = ''https://geoip.maxmind.com/geoip/v2.1/insights/'' \<longrightarrow>
            Insights E h a ctx ipAddress w = (Return (response, None), w'))"
proof -
  have "fetch E h a ctx prefix ipAddress w = (Return (response, None), w')"
    using assms by (auto simp add: fetch_def NewRequest_def)
  then show ?thesis
    by (auto simp add: Country_def City_def Insights_def)
qed

theorem fetch_success_witness:
  \<open>City sampleEnv (sampleClient (stub 200 ''{"country":{"iso_code":"US"}}''))
        (Some 0) None ''1.2.3.4'' ()
   = (Return ([(''country.iso_code'', ''US'')], None), ())\<close>
  using fetch_success
    [where E = "sampleEnv :: (unit, SampleResponse) env"
      and prefix = "''https://geoip.maxmind.com/geoip/v2.1/city/''"
      and ipAddress = "''1.2.3.4''"
      and u = "''https://geoip.maxmind.com/geoip/v2.1/city/1.2.3.4''"
      and h = \<open>sampleClient (stub 200 ''{"country":{"iso_code":"US"}}'')\<close>
      and a = "Some 0" and ctx = None and w = "()" and w' = "()"
      and f = \<open>stub 200 ''{"country":{"iso_code":"US"}}''\<close>
      and api = \<open>\<lparr>doFunc = Some (stub 200 ''{"country":{"iso_code":"US"}}''),
                   userId = ''42'', licenseKey = ''secret''\<rparr>\<close>
      and resp = \<open>\<lparr>StatusCode = 200, Body = NewBuffer ''{"country":{"iso_code":"US"}}''\<rparr>\<close>
      and response = "[(''country.iso_code'', ''US'')]"]
  by (simp add: sample_defs lib_defs)

text \<open>
  C3, with the text the code writes. When the status is outside [400, 600) and the
  decoder reports an error, \<^verbatim>\<open>fetch\<close> returns an error whose message is
  \<^verbatim>\<open>Error parsing response as JSON: \<close> followed by the message of the decoder's error,
  together with the Response as the decoder left it: empty when the decoder wrote
  nothing before it failed.
\<close>

theorem fetch_decode_failure:
  assumes "parseURL E (prefix @ ipAddress) = Inr u"
    and "deref h a = Some api"
    and "doFunc api = Some f"
    and "f (if ctx = None then Some Background else ctx)
           (SetBasicAuth \<lparr>Method = ''GET'', URL = u, Header = Map.empty\<rparr>
              (userId api) (licenseKey api)) w
         = ((Some resp, None), w')"
    and "StatusCode resp < 400 \<or> 600 \<le> StatusCode resp"
    and "jsonDecodeResponse E (Body resp) (emptyResponse E) = (response, Some derr)"
  shows "fetch E h a ctx prefix ipAddress w
         = (Return (response,
              Some (Errorf (''Error parsing response as JSON: '' @ errorMessage E derr))), w')"
  using assms by (auto simp add: fetch_def NewRequest_def)

theorem fetch_decode_failure_witness:
  "fetch sampleEnv (sampleClient (stub 200 ''not json'')) (Some 0) None cityPrefix ''1.2.3.4'' ()
   = (Return ([], Some (Errorf
        ''Error parsing response as JSON: invalid character looking for beginning of value'')),
      ())"
  using fetch_decode_failure
    [where E = "sampleEnv :: (unit, SampleResponse) env" and prefix = cityPrefix
      and ipAddress = "''1.2.3.4''"
      and u = "''https://geoip.maxmind.com/geoip/v2.1/city/1.2.3.4''"
      and h = "sampleClient (stub 200 ''not json'')"
      and a = "Some 0" and ctx = None and w = "()" and w' = "()"
      and f = "stub 200 ''not json''"
      and api = "\<lparr>doFunc = Some (stub 200 ''not json''),
                   userId = ''42'', licenseKey = ''secret''\<rparr>"
      and resp = "\<lparr>StatusCode = 200, Body = NewBuffer ''not json''\<rparr>"
      and response = "[]"
      and derr = "Foreign ''invalid character looking for beginning of value''"]
  by (simp add: sample_defs lib_defs)

text \<open>
  C3 as stated names another text and promises an empty Response. For status 200 and
  the body \<^verbatim>\<open><html>\<close> the message is not \<^verbatim>\<open>failed to parse response as JSON: \<close> followed by
  the decoder's message; and for a body with a value of the wrong type the Response that
  comes with the error is not empty.
\<close>

theorem fetch_decode_failure_counterexample:
  \<open>fetch sampleEnv (sampleClient (stub 200 ''<html>'')) (Some 0) None cityPrefix ''1.2.3.4'' ()
   = (Return ([], Some (Errorf
        ''Error parsing response as JSON: invalid character looking for beginning of value'')),
      ())
   \<and> ''Error parsing response as JSON: invalid character looking for beginning of value''
       \<noteq> ''failed to parse response as JSON: ''
           @ ''invalid character looking for beginning of value''
   \<and> Insights sampleEnv
         (sampleClient (stub 200 ''{"country":{"iso_code":"US"},"city":5}''))
         (Some 0) (Some Background) ''8.8.8.8'' ()
     = (Return ([(''country.iso_code'', ''US'')], Some (Errorf
          ''Error parsing response as JSON: json: cannot unmarshal number into Go value of type geoip2.City'')),
        ())
   \<and> [(''country.iso_code'', ''US'')]
       \<noteq> emptyResponse (sampleEnv :: (unit, SampleResponse) env)\<close>
  by (simp add: fetch_def Insights_def sample_defs lib_defs)

section \<open>What the transport is called with\<close>

text \<open>
  C8, as the code has it. \<^verbatim>\<open>fetch\<close> hands the prefix followed by the IP string, as given,
  to \<^verbatim>\<open>http.NewRequest\<close>. When the parser rejects that string, \<^verbatim>\<open>fetch\<close> returns the
  parser's error with the empty Response and the transport is not called. Otherwise, on
  a client whose transport is a spy, the lookup adds exactly one call to the log, and the
  request of that call is a GET for the URL the parser made of the string, with the single
  header field \<^verbatim>\<open>Authorization\<close> set to \<^verbatim>\<open>Basic \<close> and the base64 of
  \<^verbatim>\<open>userId:licenseKey\<close>. \<^verbatim>\<open>City\<close> is \<^verbatim>\<open>fetch\<close> at the prefix
  \<^verbatim>\<open>https://geoip.maxmind.com/geoip/v2.1/city/\<close>.
\<close>

theorem fetch_request:
  assumes "deref h a = Some api"
    and "doFunc api = Some (spy f)"
  shows "(case parseURL E (prefix @ ipAddress) of
            Inl e \<Rightarrow>
              fetch E h a ctx prefix ipAddress (w, calls)
              = (Return (emptyResponse E, Some e), (w, calls))
          | Inr u \<Rightarrow>
              map snd (snd (snd (fetch E h a ctx prefix ipAddress (w, calls))))
              = map snd calls @
                [\<lparr>Method = ''GET'', URL = u,
                  Header = [''Authorization'' \<mapsto>
                              ''Basic '' @ base64 (userId api @ '':'' @ licenseKey api)]\<rparr>])
       \<and> City E h a ctx ipAddress (w, calls)
           = fetch E h a ctx ''https://geoip.maxmind.com/geoip/v2.1/city/'' ipAddress (w, calls)"
proof (cases "parseURL E (prefix @ ipAddress)")
  case (Inl e)
  then show ?thesis
    by (simp add: fetch_unsent City_def)
next
  case (Inr u)
  with assms show ?thesis
    by (simp add: City_def fetch_world snd_spy SetBasicAuth_def)
qed

text \<open>
  The example of the spec: \<^verbatim>\<open>City\<close> for 1.2.3.4 with the credentials 42 and secret, a
  string the sample parser leaves as it is.
\<close>

theorem fetch_request_witness:
  "map snd (snd (snd (City sampleEnv (sampleClient (spy (stub 200 ''{}''))) (Some 0) None
                        ''1.2.3.4'' ((), []))))
   = [\<lparr>Method = ''GET'', URL = ''https://geoip.maxmind.com/geoip/v2.1/city/1.2.3.4'',
       Header = [''Authorization'' \<mapsto> ''Basic NDI6c2VjcmV0'']\<rparr>]"
  using fetch_request
    [where E = "sampleEnv :: (unit \<times> call_log, SampleResponse) env"
      and prefix = "''https://geoip.maxmind.com/geoip/v2.1/city/''"
      and ipAddress = "''1.2.3.4''"
      and h = "sampleClient (spy (stub 200 ''{}''))"
      and a = "Some 0" and ctx = None and w = "()" and calls = "[]"
      and f = "stub 200 ''{}''"
      and api = "\<lparr>doFunc = Some (spy (stub 200 ''{}'')),
                   userId = ''42'', licenseKey = ''secret''\<rparr>"]
  by (simp add: sampleEnv_def taggedEnv_def sampleParseURL_def sampleClient_def deref_def
        base64_def base64_alphabet_def)

text \<open>
  C8 as stated speaks of every IP string. For an IP string that is a line feed the parser
  rejects the URL: the lookup returns the parser's error and the log stays empty, so no
  request is built. For the IP string \<^verbatim>\<open>1.2.3.4 5\<close> the URL of the request sent has the
  blank escaped and is not the prefix followed by the string.
\<close>

theorem fetch_request_counterexample:
  "fetch sampleEnv (sampleClient (spy (stub 200 ''{}''))) (Some 0) None cityPrefix
         [CHR 0x0A] ((), [])
     = (Return ([], Some (Foreign ''net/url: invalid control character in URL'')), ((), []))
   \<and> map (URL \<circ> snd)
        (snd (snd (City sampleEnv (sampleClient (spy (stub 200 ''{}''))) (Some 0) None
                     ''1.2.3.4 5'' ((), []))))
     = [''https://geoip.maxmind.com/geoip/v2.1/city/1.2.3.4%205'']
   \<and> ''https://geoip.maxmind.com/geoip/v2.1/city/1.2.3.4%205''
       \<noteq> ''https://geoip.maxmind.com/geoip/v2.1/city/'' @ ''1.2.3.4 5''"
  by (simp add: fetch_def City_def spy_def SetBasicAuth_def sample_defs lib_defs)

text \<open>
  C10. A lookup called with a nil context calls the transport with
  \<^verbatim>\<open>context.Background()\<close> (once, or not at all when the URL does not parse), and no
  lookup ever calls the transport with a nil context.
\<close>

theorem fetch_context:
  assumes "deref h a = Some api"
    and "doFunc api = Some (spy f)"
  shows "map fst (snd (snd (fetch E h a None prefix ipAddress (w, []))))
           = (case parseURL E (prefix @ ipAddress) of
                Inl e \<Rightarrow> [] | Inr u \<Rightarrow> [Some Background])
       \<and> None \<notin> set (map fst (snd (snd (fetch E h a ctx prefix ipAddress (w, [])))))"
proof (cases "parseURL E (prefix @ ipAddress)")
  case (Inr u)
  with assms show ?thesis by (auto simp add: fetch_world snd_spy)
next
  case (Inl e)
  then show ?thesis by (simp add: fetch_unsent)
qed

theorem fetch_context_witness:
  "map fst (snd (snd (fetch sampleEnv (sampleClient (spy (stub 200 ''{}''))) (Some 0) None
                        cityPrefix ''1.2.3.4'' ((), []))))
   = [Some Background]"
  using fetch_context
    [where E = "sampleEnv :: (unit \<times> call_log, SampleResponse) env"
      and prefix = cityPrefix and ipAddress = "''1.2.3.4''"
      and h = "sampleClient (spy (stub 200 ''{}''))"
      and a = "Some 0" and w = "()" and f = "stub 200 ''{}''"
      and api = "\<lparr>doFunc = Some (spy (stub 200 ''{}'')),
                   userId = ''42'', licenseKey = ''secret''\<rparr>"]
  by (simp add: sampleEnv_def taggedEnv_def sampleParseURL_def sampleClient_def cityPrefix_def
        deref_def)

section \<open>Construction\<close>

text \<open>
  C6. The transport \<^verbatim>\<open>wrap d\<close> returns exactly what \<^verbatim>\<open>d\<close> returns on the request, whatever
  the context: two calls that differ only in the context behave alike. It is the
  transport \<^verbatim>\<open>New\<close> installs (over \<^verbatim>\<open>http.DefaultClient\<close>) and the one \<^verbatim>\<open>WithClient\<close>
  installs (over the given client).
\<close>

theorem wrap_ignores_context:
  "wrap d ctx req w = d req w
   \<and> wrap d ctx req w = wrap d ctx' req w
   \<and> New E h user key
       = Return (Some (Suc (length h)),
           h @ [\<lparr>doFunc = None, userId = user, licenseKey = key\<rparr>,
                \<lparr>doFunc = Some (wrap (Do (DefaultClient E))), userId = user, licenseKey = key\<rparr>])
   \<and> WithClient h api client = WithClientFunc h api (Some (wrap (Do client)))"
  by (simp add: wrap_def New_def WithClient_def WithClientFunc_def alloc_def deref_def)

text \<open>
  C9. For every base client, \<^verbatim>\<open>WithClientFunc\<close> returns a new client, and so does
  \<^verbatim>\<open>WithClient\<close>: a new object at a new address, with the given transport and the
  credentials of the base. The store they return is the old one with that object added:
  the base is as it was, in every field, like every other object, and a lookup through
  the base gives the same result in the new store as in the old one.
\<close>

theorem WithClientFunc_frame:
  assumes "deref h base = Some b"
  shows "WithClientFunc h base ctxFunc
           = Return (Some (length h),
               h @ [\<lparr>doFunc = ctxFunc, userId = userId b, licenseKey = licenseKey b\<rparr>])
       \<and> WithClient h base client
           = Return (Some (length h),
               h @ [\<lparr>doFunc = Some (wrap (Do client)), userId = userId b,
                     licenseKey = licenseKey b\<rparr>])
       \<and> Some (length h) \<noteq> base
       \<and> deref h (Some (length h)) = None
       \<and> deref (h @ [new]) (Some (length h)) = Some new
       \<and> deref (h @ [new]) base = Some b
       \<and> (\<forall>q v. deref h q = Some v \<longrightarrow> deref (h @ [new]) q = Some v)
       \<and> fetch E (h @ [new]) base ctx prefix ipAddress w
           = fetch E h base ctx prefix ipAddress w"
proof -
  have run: "WithClientFunc h base f
             = Return (Some (length h),
                 h @ [\<lparr>doFunc = f, userId = userId b, licenseKey = licenseKey b\<rparr>])" for f
    using assms by (simp add: WithClientFunc_def alloc_def)
  have keep: "\<forall>q v. deref h q = Some v \<longrightarrow> deref (h @ [new]) q = Some v"
    using deref_alloc [of h _ _ new] by (simp add: alloc_def)
  have fresh: "deref h (Some (length h)) = None"
    by (simp add: deref_def)
  have added: "deref (h @ [new]) (Some (length h)) = Some new"
    by (simp add: deref_def)
  have base': "deref (h @ [new]) base = Some b"
    using keep assms by blast
  have same: "fetch E (h @ [new]) base ctx prefix ipAddress w
              = fetch E h base ctx prefix ipAddress w"
    by (rule fetch_deref_cong) (simp add: assms base')
  have distinct: "Some (length h) \<noteq> base"
    using fresh assms by auto
  from run [of ctxFunc] run [of "Some (wrap (Do client))"] distinct fresh added base' keep same
  show ?thesis
    by (simp add: WithClient_def)
qed

text \<open>
  An instance: a second client is derived from the one at address 0; the one at address 0
  still has its failing transport, and a lookup through it still fails the same way.
\<close>

theorem WithClientFunc_frame_witness:
  "WithClientFunc (sampleClient (failing (Foreign ''offline'')) :: unit heap) (Some 0)
       (Some (stub 200 ''{}''))
     = Return (Some 1, sampleClient (failing (Foreign ''offline''))
                 @ [\<lparr>doFunc = Some (stub 200 ''{}''), userId = ''42'', licenseKey = ''secret''\<rparr>])
   \<and> deref ((sampleClient (failing (Foreign ''offline'')) :: unit heap)
             @ [\<lparr>doFunc = Some (stub 200 ''{}''), userId = ''42'', licenseKey = ''secret''\<rparr>])
        (Some 0)
     = Some \<lparr>doFunc = Some (failing (Foreign ''offline'')), userId = ''42'',
             licenseKey = ''secret''\<rparr>
   \<and> fetch sampleEnv
        (sampleClient (failing (Foreign ''offline''))
           @ [\<lparr>doFunc = Some (stub 200 ''{}''), userId = ''42'', licenseKey = ''secret''\<rparr>])
        (Some 0) None cityPrefix ''1.2.3.4'' ()
     = (Return ([], Some (Foreign ''offline'')), ())"
proof -
  let ?h = "sampleClient (failing (Foreign ''offline'')) :: unit heap"
  let ?b = "\<lparr>doFunc = Some (failing (Foreign ''offline'')), userId = ''42'',
             licenseKey = ''secret''\<rparr> :: unit Api"
  let ?new = "\<lparr>doFunc = Some (stub 200 ''{}''), userId = ''42'', licenseKey = ''secret''\<rparr>
              :: unit Api"
  have b: "deref ?h (Some 0) = Some ?b"
    by (simp add: sampleClient_def deref_def)
  have len: "length ?h = 1"
    by (simp add: sampleClient_def)
  have old: "fetch sampleEnv ?h (Some 0) None cityPrefix ''1.2.3.4'' ()
             = (Return ([], Some (Foreign ''offline'')), ())"
    by (simp add: fetch_def sample_defs lib_defs)
  from WithClientFunc_frame [OF b, where ctxFunc = "Some (stub 200 ''{}'')" and new = ?new
      and E = sampleEnv and ctx = None and prefix = cityPrefix
      and ipAddress = "''1.2.3.4''" and w = "()"]
  have "WithClientFunc ?h (Some 0) (Some (stub 200 ''{}'')) = Return (Some (length ?h), ?h @ [?new])"
    and "deref (?h @ [?new]) (Some 0) = Some ?b"
    and "fetch sampleEnv (?h @ [?new]) (Some 0) None cityPrefix ''1.2.3.4'' ()
         = fetch sampleEnv ?h (Some 0) None cityPrefix ''1.2.3.4'' ()"
    by simp_all
  with len old show ?thesis
    by simp
qed

end
